theory Spec2Isabelle
  imports Complex_Main
begin

section \<open>Values, headers and the request configuration\<close>

text \<open>
  The metrics carry payloads of TypeScript type \<^verbatim>\<open>any\<close> and failures of type
  \<^verbatim>\<open>unknown\<close>. They are copied, never inspected, so a plain tree of JavaScript values
  is enough. \<open>JUndefined\<close> is the value of an absent \<^verbatim>\<open>any\<close> field.
  JavaScript numbers are modelled as reals: the timestamps of \<^verbatim>\<open>performance.now()\<close>
  are finite and the only arithmetic the code does on them is one subtraction.
\<close>

datatype js_value =
    JUndefined
  | JNull
  | JBool bool
  | JNum real
  | JStr string
  | JArr "js_value list"
  | JObj "(string \<times> js_value) list"

type_synonym headers = "(string \<times> js_value) list"

text \<open>
  Field names are prefixed with the record they belong to (\<open>arm\<close> for
  \<^verbatim>\<open>AxiosRequestMetric\<close>, \<open>cfg\<close> for \<^verbatim>\<open>InternalAxiosRequestConfig\<close>, and so on);
  after the prefix they are the names of the source. An optional field
  (\<^verbatim>\<open>method?: string\<close>) is an \<open>option\<close>.
\<close>

text \<open>The instance fields of \<^verbatim>\<open>class AxiosRequestMetric\<close>.\<close>

record axios_request_metric =
  arm_method :: "string option"
  arm_url :: "string option"
  arm_headers :: headers
  arm_data :: js_value
  arm_start_time :: real

text \<open>
  \<^verbatim>\<open>interface Metadata { [x: string]: any; metric: { request: RequestMetric } }\<close>.
  The path \<^verbatim>\<open>metadata.metric.request\<close> is one field: \<open>None\<close> stands for a metadata
  object on which \<^verbatim>\<open>metric\<close> or \<^verbatim>\<open>metric.request\<close> is undefined. \<open>md_others\<close> holds
  the keys of the index signature.
\<close>

record Metadata =
  md_metric_request :: "axios_request_metric option"
  md_others :: "(string \<times> js_value) list"

text \<open>
  \<^verbatim>\<open>InternalAxiosRequestConfig\<close> with the module augmentation of the source. The
  declaration says \<^verbatim>\<open>metadata: Metadata\<close>, but the object axios hands to the first
  request interceptor has no such property, so at run time the field is optional.
  \<open>cfg_others\<close> holds the fields of the configuration the source never names.
\<close>

record InternalAxiosRequestConfig =
  cfg_method :: "string option"
  cfg_url :: "string option"
  cfg_headers :: headers
  cfg_data :: js_value
  cfg_metadata :: "Metadata option"
  cfg_others :: "(string \<times> js_value) list"

record AxiosResponse =
  res_data :: js_value
  res_status :: int
  res_statusText :: string
  res_headers :: headers
  res_config :: InternalAxiosRequestConfig

text \<open>
  A failure is any value (\<^verbatim>\<open>error: unknown\<close>). \<open>AxiosError\<close> stands for every value
  that \<^verbatim>\<open>axios.isAxiosError\<close> accepts, with its optional \<^verbatim>\<open>config\<close> and \<^verbatim>\<open>response\<close>;
  \<open>TypeError\<close> is what the runtime throws on reading a property of \<^verbatim>\<open>undefined\<close>;
  \<open>Failure\<close> is any other thrown value.
\<close>

datatype failure =
    AxiosError "InternalAxiosRequestConfig option" "AxiosResponse option"
  | TypeError
  | Failure js_value

fun isAxiosError :: "failure \<Rightarrow> bool" where
  "isAxiosError (AxiosError config response) = True"
| "isAxiosError TypeError = False"
| "isAxiosError (Failure v) = False"

text \<open>\<^verbatim>\<open>error.config\<close>, read after \<^verbatim>\<open>isAxiosError(error)\<close>.\<close>

fun error_config :: "failure \<Rightarrow> InternalAxiosRequestConfig option" where
  "error_config (AxiosError config response) = config"
| "error_config TypeError = None"
| "error_config (Failure v) = None"

section \<open>The metric classes\<close>

text \<open>
  The \<^verbatim>\<open>RequestMetric\<close> shape the response and error metrics embed: the object literal
  \<^verbatim>\<open>{ headers, start_time, data }\<close>.
\<close>

record RequestMetric =
  rq_headers :: headers
  rq_start_time :: real
  rq_data :: js_value

record response_part =
  status_code :: int
  status_message :: string
  data :: js_value

text \<open>
  The argument of the private constructor of \<^verbatim>\<open>AxiosResponseMetric\<close>
  (\<^verbatim>\<open>HttpMetric & ResponseMetric\<close>): the object literal built by \<^verbatim>\<open>fromAxiosResponse\<close>.
\<close>

record ResponseMetric =
  m_method :: "string option"
  m_url :: "string option"
  m_headers :: headers
  m_request :: RequestMetric
  m_response :: response_part
  m_end_time :: real
  m_response_time :: real

text \<open>The instance fields of \<^verbatim>\<open>class AxiosResponseMetric\<close>.\<close>

record axios_response_metric =
  rsm_method :: "string option"
  rsm_url :: "string option"
  rsm_request :: "RequestMetric option"
  rsm_headers :: "headers option"
  rsm_response :: response_part
  rsm_end_time :: real
  rsm_response_time :: real

text \<open>The instance fields of \<^verbatim>\<open>class AxiosErrorMetric\<close>.\<close>

record axios_error_metric =
  em_method :: "string option"
  em_url :: "string option"
  em_request :: "RequestMetric option"
  em_headers :: "headers option"
  em_end_time :: real
  em_response_time :: real
  em_error :: failure

text \<open>
  \<^verbatim>\<open>new AxiosRequestMetric(config, start_time)\<close>. The default of \<^verbatim>\<open>start_time\<close>,
  \<^verbatim>\<open>performance.now()\<close>, is passed by the caller.
\<close>

definition AxiosRequestMetric ::
  "InternalAxiosRequestConfig \<Rightarrow> real \<Rightarrow> axios_request_metric" where
  "AxiosRequestMetric config start_time =
     \<lparr> arm_method = cfg_method config,
       arm_url = cfg_url config,
       arm_headers = cfg_headers config,
       arm_data = cfg_data config,
       arm_start_time = start_time \<rparr>"

text \<open>
  The property path \<^verbatim>\<open>config.metadata.metric.request\<close>. Reading through an undefined
  \<^verbatim>\<open>metadata\<close>, \<^verbatim>\<open>metric\<close> or \<^verbatim>\<open>request\<close> throws a TypeError.
\<close>

definition metric_request ::
  "InternalAxiosRequestConfig \<Rightarrow> failure + axios_request_metric" where
  "metric_request config =
     (case cfg_metadata config of
        None \<Rightarrow> Inl TypeError
      | Some metadata \<Rightarrow>
          (case md_metric_request metadata of
             None \<Rightarrow> Inl TypeError
           | Some request \<Rightarrow> Inr request))"

text \<open>
  The private constructor of \<^verbatim>\<open>AxiosResponseMetric\<close>. It assigns \<^verbatim>\<open>method\<close>, \<^verbatim>\<open>url\<close>,
  \<^verbatim>\<open>headers\<close>, \<^verbatim>\<open>response\<close>, \<^verbatim>\<open>end_time\<close> and \<^verbatim>\<open>response_time\<close>; the declared field
  \<^verbatim>\<open>request\<close> is not assigned and stays undefined.
\<close>

definition AxiosResponseMetric :: "ResponseMetric \<Rightarrow> axios_response_metric" where
  "AxiosResponseMetric metric =
     \<lparr> rsm_method = m_method metric,
       rsm_url = m_url metric,
       rsm_request = None,
       rsm_headers = Some (m_headers metric),
       rsm_response = m_response metric,
       rsm_end_time = m_end_time metric,
       rsm_response_time = m_response_time metric \<rparr>"

text \<open>\<^verbatim>\<open>AxiosResponseMetric.fromAxiosResponse(response, end_time)\<close>.\<close>

definition fromAxiosResponse ::
  "AxiosResponse \<Rightarrow> real \<Rightarrow> failure + axios_response_metric" where
  "fromAxiosResponse response end_time =
     (case metric_request (res_config response) of
        Inl thrown \<Rightarrow> Inl thrown
      | Inr request \<Rightarrow>
          Inr (AxiosResponseMetric
            \<lparr> m_method = cfg_method (res_config response),
              m_url = cfg_url (res_config response),
              m_headers = res_headers response,
              m_request =
                \<lparr> rq_headers = arm_headers request,
                  rq_start_time = arm_start_time request,
                  rq_data = arm_data request \<rparr>,
              m_response =
                \<lparr> status_code = res_status response,
                  status_message = res_statusText response,
                  data = res_data response \<rparr>,
              m_end_time = end_time,
              m_response_time = end_time - arm_start_time request \<rparr>))"

text \<open>
  \<^verbatim>\<open>new AxiosErrorMetric(error, end_time)\<close>. In the recognised branch the reads of
  \<^verbatim>\<open>config.metadata.metric.request\<close> can throw, and then the constructor throws.
\<close>

definition AxiosErrorMetric :: "failure \<Rightarrow> real \<Rightarrow> failure + axios_error_metric" where
  "AxiosErrorMetric error end_time =
     (case (if isAxiosError error then error_config error else None) of
        Some config \<Rightarrow>
          (case metric_request config of
             Inl thrown \<Rightarrow> Inl thrown
           | Inr request \<Rightarrow>
               Inr \<lparr> em_method = cfg_method config,
                     em_url = cfg_url config,
                     em_request = Some
                       \<lparr> rq_headers = arm_headers request,
                         rq_start_time = arm_start_time request,
                         rq_data = arm_data request \<rparr>,
                     em_headers = Some (cfg_headers config),
                     em_end_time = end_time,
                     em_response_time = end_time - arm_start_time request,
                     em_error = error \<rparr>)
      | None \<Rightarrow>
          Inr \<lparr> em_method = None,
                em_url = None,
                em_request = None,
                em_headers = None,
                em_end_time = end_time,
                em_response_time = - 1,
                em_error = error \<rparr>)"

section \<open>The interceptor registrar\<close>

text \<open>
  What a hook hands back to axios: it returns a value, returns a rejected promise
  (\<^verbatim>\<open>return Promise.reject(error)\<close>), or throws.
\<close>

datatype 'a outcome =
    Returned 'a
  | Rejected failure
  | Threw failure

text \<open>
  What a hook does besides: the constructors and factory it enters and the callbacks
  it invokes, in order, each with its arguments.
\<close>

datatype event =
    Construct_AxiosRequestMetric InternalAxiosRequestConfig
  | Call_fromAxiosResponse AxiosResponse
  | Construct_AxiosErrorMetric failure
  | Call_RequestMetricCallback axios_request_metric InternalAxiosRequestConfig
  | Call_ResponseMetricCallback axios_response_metric AxiosResponse
  | Call_ErrorMetricCallback axios_error_metric failure

text \<open>
  A callback is the caller's code. The hook sees of it whether it returns (\<open>None\<close>) or
  throws a value (\<open>Some\<close>). Every callback is invoked through \<^verbatim>\<open>?.\<close>, so it may be
  \<^verbatim>\<open>undefined\<close> or \<^verbatim>\<open>null\<close>: a callback parameter is an \<open>option\<close>.
\<close>

type_synonym RequestMetricCallback =
  "axios_request_metric \<Rightarrow> InternalAxiosRequestConfig \<Rightarrow> failure option"

type_synonym ResponseMetricCallback =
  "axios_response_metric \<Rightarrow> AxiosResponse \<Rightarrow> failure option"

type_synonym ErrorMetricCallback =
  "axios_error_metric \<Rightarrow> failure \<Rightarrow> failure option"

text \<open>
  The hooks take the reading of \<^verbatim>\<open>performance.now()\<close> at the moment they run as their
  first argument.
\<close>

type_synonym request_hook =
  "real \<Rightarrow> InternalAxiosRequestConfig \<Rightarrow> InternalAxiosRequestConfig outcome \<times> event list"

type_synonym response_hook =
  "real \<Rightarrow> AxiosResponse \<Rightarrow> AxiosResponse outcome \<times> event list"

type_synonym error_hook =
  "real \<Rightarrow> failure \<Rightarrow> AxiosResponse outcome \<times> event list"

text \<open>
  The interceptor managers of an axios instance: \<^verbatim>\<open>interceptors.request.use(f)\<close> and
  \<^verbatim>\<open>interceptors.response.use(f, g)\<close> push their handlers.
\<close>

record AxiosInstance =
  interceptors_request :: "request_hook list"
  interceptors_response :: "(response_hook \<times> error_hook) list"

text \<open>The arrow function \<^verbatim>\<open>useRequestMetric\<close> registers.\<close>

definition request_interceptor :: "RequestMetricCallback option \<Rightarrow> request_hook" where
  "request_interceptor cb now config =
     (let metric = AxiosRequestMetric config now;
          config' = config\<lparr> cfg_metadata :=
                      Some \<lparr> md_metric_request = Some metric, md_others = [] \<rparr> \<rparr>
      in case cb of
           None \<Rightarrow> (Returned config', [Construct_AxiosRequestMetric config])
         | Some callback \<Rightarrow>
             (case callback metric config' of
                None \<Rightarrow>
                  (Returned config',
                   [Construct_AxiosRequestMetric config,
                    Call_RequestMetricCallback metric config'])
              | Some thrown \<Rightarrow>
                  (Threw thrown,
                   [Construct_AxiosRequestMetric config,
                    Call_RequestMetricCallback metric config'])))"

text \<open>
  The two arrow functions \<^verbatim>\<open>useResponseMetric\<close> registers. The arguments of an optional
  call \<^verbatim>\<open>f?.(a, b)\<close> are evaluated only when \<^verbatim>\<open>f\<close> is neither undefined nor null.
\<close>

definition response_interceptor :: "ResponseMetricCallback option \<Rightarrow> response_hook" where
  "response_interceptor res now response =
     (case res of
        None \<Rightarrow> (Returned response, [])
      | Some callback \<Rightarrow>
          (case fromAxiosResponse response now of
             Inl thrown \<Rightarrow> (Threw thrown, [Call_fromAxiosResponse response])
           | Inr metric \<Rightarrow>
               (case callback metric response of
                  None \<Rightarrow>
                    (Returned response,
                     [Call_fromAxiosResponse response,
                      Call_ResponseMetricCallback metric response])
                | Some thrown \<Rightarrow>
                    (Threw thrown,
                     [Call_fromAxiosResponse response,
                      Call_ResponseMetricCallback metric response]))))"

definition error_interceptor :: "ErrorMetricCallback option \<Rightarrow> error_hook" where
  "error_interceptor err now error =
     (case err of
        None \<Rightarrow> (Rejected error, [])
      | Some callback \<Rightarrow>
          (case AxiosErrorMetric error now of
             Inl thrown \<Rightarrow> (Threw thrown, [Construct_AxiosErrorMetric error])
           | Inr metric \<Rightarrow>
               (case callback metric error of
                  None \<Rightarrow>
                    (Rejected error,
                     [Construct_AxiosErrorMetric error,
                      Call_ErrorMetricCallback metric error])
                | Some thrown \<Rightarrow>
                    (Threw thrown,
                     [Construct_AxiosErrorMetric error,
                      Call_ErrorMetricCallback metric error]))))"

definition useRequestMetric ::
  "AxiosInstance \<Rightarrow> RequestMetricCallback option \<Rightarrow> AxiosInstance" where
  "useRequestMetric axios cb =
     axios\<lparr> interceptors_request :=
              interceptors_request axios @ [request_interceptor cb] \<rparr>"

definition useResponseMetric ::
  "AxiosInstance \<Rightarrow> ResponseMetricCallback option \<Rightarrow> ErrorMetricCallback option
     \<Rightarrow> AxiosInstance" where
  "useResponseMetric axios res err =
     axios\<lparr> interceptors_response :=
              interceptors_response axios
                @ [(response_interceptor res, error_interceptor err)] \<rparr>"

text \<open>\<^verbatim>\<open>use\<close> passes no third argument: \<^verbatim>\<open>err\<close> is undefined.\<close>

definition use ::
  "AxiosInstance \<Rightarrow> RequestMetricCallback option \<Rightarrow> ResponseMetricCallback option
     \<Rightarrow> AxiosInstance" where
  "use axios requestMetricCallback responseMetricCallback =
     useResponseMetric (useRequestMetric axios requestMetricCallback)
       responseMetricCallback None"

text \<open>The callback \<^verbatim>\<open>() => {}\<close>: it returns and throws nothing.\<close>

definition noop_callback :: "'m \<Rightarrow> 'a \<Rightarrow> failure option" where
  "noop_callback metric value = None"

section \<open>Response metrics\<close>



text \<open>
  C2. Every metric \<open>fromAxiosResponse\<close> produces should embed the originating request in
  its \<open>request\<close> field. The factory builds that request object, but the private
  constructor never assigns it: for the response of the scenario above the metric is
  produced, its timing is right, and its \<open>request\<close> field is absent.
\<close>

theorem fromAxiosResponse_request_absent:
  "fromAxiosResponse
     \<lparr> res_data = JStr ''[]'', res_status = 200, res_statusText = ''OK'',
       res_headers = [(''content-type'', JStr ''application/json'')],
       res_config =
         \<lparr> cfg_method = Some ''get'', cfg_url = Some ''/items'',
           cfg_headers = [(''accept'', JStr ''*/*'')], cfg_data = JUndefined,
           cfg_metadata = Some
             \<lparr> md_metric_request = Some
                 \<lparr> arm_method = Some ''get'', arm_url = Some ''/items'',
                   arm_headers = [(''accept'', JStr ''*/*'')], arm_data = JUndefined,
                   arm_start_time = 100 \<rparr>,
               md_others = [] \<rparr>,
           cfg_others = [] \<rparr> \<rparr> 150
   = Inr \<lparr> rsm_method = Some ''get'', rsm_url = Some ''/items'',
           rsm_request = None,
           rsm_headers = Some [(''content-type'', JStr ''application/json'')],
           rsm_response =
             \<lparr> status_code = 200, status_message = ''OK'', data = JStr ''[]'' \<rparr>,
           rsm_end_time = 150, rsm_response_time = 50 \<rparr>"
  by (simp add: fromAxiosResponse_def metric_request_def AxiosResponseMetric_def)

section \<open>Error metrics\<close>

text \<open>
  C3, as the code has it. Constructing an \<open>AxiosErrorMetric\<close> does not throw for a
  failure that is not an axios error carrying a config, nor for an axios error whose
  config carries the correlation metadata (\<^verbatim>\<open>metadata.metric.request\<close>).
\<close>

theorem AxiosErrorMetric_constructs:
  assumes "\<forall>config. isAxiosError error \<and> error_config error = Some config
             \<longrightarrow> (\<exists>request. metric_request config = Inr request)"
  shows "\<exists>metric. AxiosErrorMetric error end_time = Inr metric"
proof (cases "if isAxiosError error then error_config error else None")
  case None
  then show ?thesis by (simp add: AxiosErrorMetric_def)
next
  case (Some config)
  then have "isAxiosError error \<and> error_config error = Some config"
    by (simp split: if_splits)
  with assms obtain request where "metric_request config = Inr request" by blast
  with Some show ?thesis by (simp add: AxiosErrorMetric_def)
qed

theorem AxiosErrorMetric_constructs_witness:
  "\<exists>metric.
     AxiosErrorMetric
       (AxiosError
          (Some \<lparr> cfg_method = Some ''get'', cfg_url = Some ''/items'',
                  cfg_headers = [], cfg_data = JUndefined,
                  cfg_metadata = Some
                    \<lparr> md_metric_request = Some
                        \<lparr> arm_method = Some ''get'', arm_url = Some ''/items'',
                          arm_headers = [], arm_data = JUndefined,
                          arm_start_time = 100 \<rparr>,
                      md_others = [] \<rparr>,
                  cfg_others = [] \<rparr>)
          None) 150 = Inr metric"
proof -
  let ?error =
    "AxiosError
       (Some \<lparr> cfg_method = Some ''get'', cfg_url = Some ''/items'',
               cfg_headers = [], cfg_data = JUndefined,
               cfg_metadata = Some
                 \<lparr> md_metric_request = Some
                     \<lparr> arm_method = Some ''get'', arm_url = Some ''/items'',
                       arm_headers = [], arm_data = JUndefined,
                       arm_start_time = 100 \<rparr>,
                   md_others = [] \<rparr>,
               cfg_others = [] \<rparr>)
       None"
  have h: "\<forall>config. isAxiosError ?error \<and> error_config ?error = Some config
             \<longrightarrow> (\<exists>request. metric_request config = Inr request)"
    by (auto simp add: metric_request_def)
  from AxiosErrorMetric_constructs [OF h, of 150] show ?thesis .
qed

text \<open>
  C3, as stated, fails: an axios error that carries a config on which the request hook
  never attached the metadata makes the constructor throw a TypeError.
\<close>

theorem AxiosErrorMetric_throws_without_metadata:
  "AxiosErrorMetric
     (AxiosError
        (Some \<lparr> cfg_method = Some ''get'', cfg_url = Some ''/items'',
                cfg_headers = [], cfg_data = JUndefined,
                cfg_metadata = None, cfg_others = [] \<rparr>)
        None) 150
   = Inl TypeError"
  by (simp add: AxiosErrorMetric_def metric_request_def)

text \<open>
  C4. For a failure that is not an axios error carrying a request configuration, the
  constructed \<open>AxiosErrorMetric\<close> has no \<open>request\<close> and its \<open>response_time\<close> is \<open>-1\<close>.
\<close>

theorem AxiosErrorMetric_unrecognized:
  assumes "\<not> (isAxiosError error \<and> error_config error \<noteq> None)"
  shows "\<exists>metric. AxiosErrorMetric error end_time = Inr metric
           \<and> em_request metric = None
           \<and> em_response_time metric = - 1"
  using assms by (auto simp add: AxiosErrorMetric_def)

theorem AxiosErrorMetric_unrecognized_witness:
  "\<not> (isAxiosError (Failure (JStr ''socket hang up''))
        \<and> error_config (Failure (JStr ''socket hang up'')) \<noteq> None)
   \<and> (\<exists>metric. AxiosErrorMetric (Failure (JStr ''socket hang up'')) 150 = Inr metric
         \<and> em_request metric = None
         \<and> em_response_time metric = - 1)"
proof -
  have h: "\<not> (isAxiosError (Failure (JStr ''socket hang up''))
        \<and> error_config (Failure (JStr ''socket hang up'')) \<noteq> None)" by simp
  from AxiosErrorMetric_unrecognized [OF h, of 150] h show ?thesis by blast
qed



text \<open>
  C8. When an \<open>AxiosErrorMetric\<close> is constructed for an axios error with a config, its
  \<open>headers\<close> are the headers of that config, the request's, whatever headers the
  error's response carries; the \<open>headers\<close> of a metric made by \<open>fromAxiosResponse\<close> are
  the headers of the response.
\<close>

theorem AxiosErrorMetric_headers_from_request:
  "(AxiosErrorMetric (AxiosError (Some config) response') end_time = Inr metric
      \<longrightarrow> em_headers metric = Some (cfg_headers config))
   \<and> (fromAxiosResponse response end_time' = Inr metric'
      \<longrightarrow> rsm_headers metric' = Some (res_headers response))"
  by (auto simp add: AxiosErrorMetric_def fromAxiosResponse_def AxiosResponseMetric_def
      split: sum.splits)

theorem AxiosErrorMetric_headers_from_request_witness:
  "AxiosErrorMetric
     (AxiosError
        (Some \<lparr> cfg_method = Some ''get'', cfg_url = Some ''/items'',
                cfg_headers = [(''accept'', JStr ''*/*'')], cfg_data = JUndefined,
                cfg_metadata = Some
                  \<lparr> md_metric_request = Some
                      \<lparr> arm_method = Some ''get'', arm_url = Some ''/items'',
                        arm_headers = [], arm_data = JUndefined,
                        arm_start_time = 100 \<rparr>,
                    md_others = [] \<rparr>,
                cfg_others = [] \<rparr>)
        (Some \<lparr> res_data = JStr ''gone'', res_status = 404,
                res_statusText = ''Not Found'',
                res_headers = [(''content-type'', JStr ''text/plain'')],
                res_config =
                  \<lparr> cfg_method = Some ''get'', cfg_url = Some ''/items'',
                    cfg_headers = [(''accept'', JStr ''*/*'')], cfg_data = JUndefined,
                    cfg_metadata = None, cfg_others = [] \<rparr> \<rparr>)) 130
   = Inr \<lparr> em_method = Some ''get'', em_url = Some ''/items'',
           em_request = Some
             \<lparr> rq_headers = [], rq_start_time = 100, rq_data = JUndefined \<rparr>,
           em_headers = Some [(''accept'', JStr ''*/*'')],
           em_end_time = 130, em_response_time = 30,
           em_error =
             AxiosError
               (Some \<lparr> cfg_method = Some ''get'', cfg_url = Some ''/items'',
                       cfg_headers = [(''accept'', JStr ''*/*'')], cfg_data = JUndefined,
                       cfg_metadata = Some
                         \<lparr> md_metric_request = Some
                             \<lparr> arm_method = Some ''get'', arm_url = Some ''/items'',
                               arm_headers = [], arm_data = JUndefined,
                               arm_start_time = 100 \<rparr>,
                           md_others = [] \<rparr>,
                       cfg_others = [] \<rparr>)
               (Some \<lparr> res_data = JStr ''gone'', res_status = 404,
                       res_statusText = ''Not Found'',
                       res_headers = [(''content-type'', JStr ''text/plain'')],
                       res_config =
                         \<lparr> cfg_method = Some ''get'', cfg_url = Some ''/items'',
                           cfg_headers = [(''accept'', JStr ''*/*'')],
                           cfg_data = JUndefined,
                           cfg_metadata = None, cfg_others = [] \<rparr> \<rparr>) \<rparr>
   \<and> em_headers
       \<lparr> em_method = Some ''get'', em_url = Some ''/items'',
         em_request = Some
           \<lparr> rq_headers = [], rq_start_time = 100, rq_data = JUndefined \<rparr>,
         em_headers = Some [(''accept'', JStr ''*/*'')],
         em_end_time = 130, em_response_time = 30,
         em_error = TypeError \<rparr>
     = Some [(''accept'', JStr ''*/*'')]
   \<and> fromAxiosResponse
       \<lparr> res_data = JStr ''[]'', res_status = 200, res_statusText = ''OK'',
         res_headers = [(''content-type'', JStr ''application/json'')],
         res_config =
           \<lparr> cfg_method = Some ''get'', cfg_url = Some ''/items'',
             cfg_headers = [(''accept'', JStr ''*/*'')], cfg_data = JUndefined,
             cfg_metadata = Some
               \<lparr> md_metric_request = Some
                   \<lparr> arm_method = Some ''get'', arm_url = Some ''/items'',
                     arm_headers = [], arm_data = JUndefined,
                     arm_start_time = 100 \<rparr>,
                 md_others = [] \<rparr>,
             cfg_others = [] \<rparr> \<rparr> 150
     = Inr \<lparr> rsm_method = Some ''get'', rsm_url = Some ''/items'',
             rsm_request = None,
             rsm_headers = Some [(''content-type'', JStr ''application/json'')],
             rsm_response =
               \<lparr> status_code = 200, status_message = ''OK'', data = JStr ''[]'' \<rparr>,
             rsm_end_time = 150, rsm_response_time = 50 \<rparr>"
proof -
  let ?stored =
    "\<lparr> arm_method = Some ''get'', arm_url = Some ''/items'',
       arm_headers = [], arm_data = JUndefined, arm_start_time = 100 \<rparr>"
  let ?config =
    "\<lparr> cfg_method = Some ''get'', cfg_url = Some ''/items'',
       cfg_headers = [(''accept'', JStr ''*/*'')], cfg_data = JUndefined,
       cfg_metadata = Some \<lparr> md_metric_request = Some ?stored, md_others = [] \<rparr>,
       cfg_others = [] \<rparr>"
  let ?failed =
    "Some \<lparr> res_data = JStr ''gone'', res_status = 404,
            res_statusText = ''Not Found'',
            res_headers = [(''content-type'', JStr ''text/plain'')],
            res_config =
              \<lparr> cfg_method = Some ''get'', cfg_url = Some ''/items'',
                cfg_headers = [(''accept'', JStr ''*/*'')], cfg_data = JUndefined,
                cfg_metadata = None, cfg_others = [] \<rparr> \<rparr>"
  let ?response =
    "\<lparr> res_data = JStr ''[]'', res_status = 200, res_statusText = ''OK'',
       res_headers = [(''content-type'', JStr ''application/json'')],
       res_config = ?config \<rparr>"
  let ?em =
    "\<lparr> em_method = Some ''get'', em_url = Some ''/items'',
       em_request = Some
         \<lparr> rq_headers = [], rq_start_time = 100, rq_data = JUndefined \<rparr>,
       em_headers = Some [(''accept'', JStr ''*/*'')],
       em_end_time = 130, em_response_time = 30,
       em_error = AxiosError (Some ?config) ?failed \<rparr>"
  let ?rsm =
    "\<lparr> rsm_method = Some ''get'', rsm_url = Some ''/items'',
       rsm_request = None,
       rsm_headers = Some [(''content-type'', JStr ''application/json'')],
       rsm_response =
         \<lparr> status_code = 200, status_message = ''OK'', data = JStr ''[]'' \<rparr>,
       rsm_end_time = 150, rsm_response_time = 50 \<rparr>"
  have a: "AxiosErrorMetric (AxiosError (Some ?config) ?failed) 130 = Inr ?em"
    by (simp add: AxiosErrorMetric_def metric_request_def)
  have b: "fromAxiosResponse ?response 150 = Inr ?rsm"
    by (simp add: fromAxiosResponse_def metric_request_def AxiosResponseMetric_def)
  from AxiosErrorMetric_headers_from_request
         [of ?config ?failed 130 ?em ?response 150 ?rsm] a b
  show ?thesis by simp
qed

section \<open>Request hook\<close>






section \<open>Response and error hooks\<close>

lemma response_interceptor_forwards:
  assumes "\<forall>callback. res = Some callback \<longrightarrow>
             (\<exists>metric. fromAxiosResponse response now = Inr metric
                \<and> callback metric response = None)"
  shows "fst (response_interceptor res now response) = Returned response"
proof (cases res)
  case None
  then show ?thesis by (simp add: response_interceptor_def)
next
  case (Some callback)
  with assms obtain metric where "fromAxiosResponse response now = Inr metric"
    and "callback metric response = None" by blast
  with Some show ?thesis by (simp add: response_interceptor_def)
qed

lemma error_interceptor_forwards:
  assumes "\<forall>callback. err = Some callback \<longrightarrow>
             (\<exists>metric. AxiosErrorMetric error now = Inr metric
                \<and> callback metric error = None)"
  shows "fst (error_interceptor err now error) = Rejected error"
proof (cases err)
  case None
  then show ?thesis by (simp add: error_interceptor_def)
next
  case (Some callback)
  with assms obtain metric where "AxiosErrorMetric error now = Inr metric"
    and "callback metric error = None" by blast
  with Some show ?thesis by (simp add: error_interceptor_def)
qed

text \<open>
  C6, as the code has it. The hooks registered by \<open>useResponseMetric\<close> forward the
  outcome unchanged whenever the metric computation and the callback complete without
  throwing, and whenever the callback is absent: the success hook then returns the
  response it received and the error hook rejects with the error it received.
\<close>

theorem useResponseMetric_forwards:
  assumes "\<forall>callback. res = Some callback \<longrightarrow>
             (\<exists>metric. fromAxiosResponse response now = Inr metric
                \<and> callback metric response = None)"
    and "\<forall>callback. err = Some callback \<longrightarrow>
             (\<exists>metric. AxiosErrorMetric error now' = Inr metric
                \<and> callback metric error = None)"
  shows "fst (fst (last (interceptors_response (useResponseMetric axios res err)))
                now response) = Returned response
       \<and> fst (snd (last (interceptors_response (useResponseMetric axios res err)))
                now' error) = Rejected error"
  using response_interceptor_forwards [OF assms(1)] error_interceptor_forwards [OF assms(2)]
  by (simp add: useResponseMetric_def)

theorem useResponseMetric_forwards_witness:
  "fst (fst (last (interceptors_response
          (useResponseMetric
             \<lparr> interceptors_request = [], interceptors_response = [] \<rparr>
             (Some noop_callback) (Some noop_callback))))
        150
        \<lparr> res_data = JStr ''[]'', res_status = 200, res_statusText = ''OK'',
          res_headers = [],
          res_config =
            \<lparr> cfg_method = Some ''get'', cfg_url = Some ''/items'',
              cfg_headers = [], cfg_data = JUndefined,
              cfg_metadata = Some
                \<lparr> md_metric_request = Some
                    \<lparr> arm_method = Some ''get'', arm_url = Some ''/items'',
                      arm_headers = [], arm_data = JUndefined,
                      arm_start_time = 100 \<rparr>,
                  md_others = [] \<rparr>,
              cfg_others = [] \<rparr> \<rparr>)
   = Returned
       \<lparr> res_data = JStr ''[]'', res_status = 200, res_statusText = ''OK'',
         res_headers = [],
         res_config =
           \<lparr> cfg_method = Some ''get'', cfg_url = Some ''/items'',
             cfg_headers = [], cfg_data = JUndefined,
             cfg_metadata = Some
               \<lparr> md_metric_request = Some
                   \<lparr> arm_method = Some ''get'', arm_url = Some ''/items'',
                     arm_headers = [], arm_data = JUndefined,
                     arm_start_time = 100 \<rparr>,
                 md_others = [] \<rparr>,
             cfg_others = [] \<rparr> \<rparr>
   \<and> fst (snd (last (interceptors_response
          (useResponseMetric
             \<lparr> interceptors_request = [], interceptors_response = [] \<rparr>
             (Some noop_callback) (Some noop_callback))))
        130 (Failure (JStr ''socket hang up'')))
   = Rejected (Failure (JStr ''socket hang up''))"
proof -
  let ?response =
    "\<lparr> res_data = JStr ''[]'', res_status = 200, res_statusText = ''OK'',
       res_headers = [],
       res_config =
         \<lparr> cfg_method = Some ''get'', cfg_url = Some ''/items'',
           cfg_headers = [], cfg_data = JUndefined,
           cfg_metadata = Some
             \<lparr> md_metric_request = Some
                 \<lparr> arm_method = Some ''get'', arm_url = Some ''/items'',
                   arm_headers = [], arm_data = JUndefined,
                   arm_start_time = 100 \<rparr>,
               md_others = [] \<rparr>,
           cfg_others = [] \<rparr> \<rparr>"
  let ?error = "Failure (JStr ''socket hang up'')"
  have a: "\<forall>callback. Some (noop_callback :: ResponseMetricCallback) = Some callback \<longrightarrow>
      (\<exists>metric. fromAxiosResponse ?response 150 = Inr metric
         \<and> callback metric ?response = None)"
    by (auto simp add: noop_callback_def fromAxiosResponse_def metric_request_def)
  have b: "\<forall>callback. Some (noop_callback :: ErrorMetricCallback) = Some callback \<longrightarrow>
      (\<exists>metric. AxiosErrorMetric ?error 130 = Inr metric
         \<and> callback metric ?error = None)"
    by (auto simp add: noop_callback_def AxiosErrorMetric_def)
  from useResponseMetric_forwards
         [OF a b, of "\<lparr> interceptors_request = [], interceptors_response = [] \<rparr>"]
  show ?thesis .
qed

text \<open>
  C6, as stated, fails: with an error callback registered, an axios error whose config
  never received the metadata makes the error hook throw a TypeError, so what the
  caller sees is the TypeError and not the error the hook received.
\<close>

theorem useResponseMetric_error_hook_rewrites:
  "fst (snd (last (interceptors_response
          (useResponseMetric
             \<lparr> interceptors_request = [], interceptors_response = [] \<rparr>
             None (Some noop_callback))))
        150
        (AxiosError
           (Some \<lparr> cfg_method = Some ''get'', cfg_url = Some ''/items'',
                   cfg_headers = [], cfg_data = JUndefined,
                   cfg_metadata = None, cfg_others = [] \<rparr>)
           None))
   = Threw TypeError"
  by (simp add: useResponseMetric_def error_interceptor_def AxiosErrorMetric_def
      metric_request_def)

text \<open>
  C7. With no error callback (\<open>err\<close> absent in \<open>useResponseMetric\<close>, as in \<open>use\<close>), the
  error hook rejects with the failure it received, whatever that failure is, and does
  nothing else: it throws nothing, enters no \<open>AxiosErrorMetric\<close> constructor and
  invokes no callback.
\<close>

theorem error_hook_without_callback:
  "snd (last (interceptors_response (useResponseMetric axios res None))) now error
     = (Rejected error, [])
   \<and> snd (last (interceptors_response
            (use axios requestMetricCallback responseMetricCallback))) now error
     = (Rejected error, [])"
  by (simp add: use_def useResponseMetric_def error_interceptor_def)

end
